theory Spec2Isabelle
  imports Main "HOL-Library.Word"
begin

section \<open>Values, types and exceptions\<close>

text \<open>
  Modelled from the spec: the enumeration \<open>SchemaTypeToPyT\<close> is declared in
  \<open>src/schema.py\<close>, which is not among the sources. Its eight members are the ones
  \<open>session.py\<close> names (\<open>STRING\<close>, \<open>INTEGER\<close>, \<open>FLOAT\<close>, \<open>BOOL\<close>, \<open>A_STRING\<close>,
  \<open>A_INTEGER\<close>, \<open>A_FLOAT\<close>, \<open>A_BOOL\<close>) and the ones the spec lists as the closed
  enumeration FieldType.
\<close>

datatype SchemaTypeToPyT =
  STRING | INTEGER | FLOAT | BOOL | A_STRING | A_INTEGER | A_FLOAT | A_BOOL

text \<open>
  What \<open>json.loads\<close> can return: \<open>str\<close>, \<open>int\<close>, \<open>float\<close> (an IEEE double, held by
  its 64 bits), \<open>bool\<close>, \<open>None\<close>, \<open>list\<close> and \<open>dict\<close> (insertion ordered, string keys).
\<close>

datatype pyval =
  PStr string
| PInt int
| PFloat "64 word"
| PBool bool
| PNone
| PList "pyval list"
| PDict "(string \<times> pyval) list"

text \<open>The four classes that \<open>session.py\<close> passes to \<open>isinstance\<close>.\<close>

datatype pytype = T_str | T_int | T_float | T_bool

text \<open>
  The exceptions that can leave the modelled functions. \<open>DataTypeConflict\<close> holds the
  message: the class of \<open>common.py\<close> keeps nothing but the argument of
  \<open>Exception.__init__\<close>. \<open>AssertionError\<close> holds the message of the \<open>assert\<close>.
  \<open>MarkupError\<close> is what the console raises on markup it cannot render, and
  \<open>InvalidIdentifier\<close> is the error of the spec (section 7) for an identifier that is
  unsafe for storage addressing.
\<close>

datatype exn =
  DataTypeConflict string
| JSONDecodeError
| AssertionError string
| TypeError
| KeyError
| IndexError
| FileNotFoundError
| EOFError
| KeyboardInterrupt
| MarkupError
| InvalidIdentifier

text \<open>\<open>common.py\<close>, lines 28-30: \<open>super().__init__(f"Expected {exp}, got {got}")\<close>.\<close>

definition DataTypeConflictException :: "string \<Rightarrow> string \<Rightarrow> exn" where
  "DataTypeConflictException exp got = DataTypeConflict (''Expected '' @ exp @ '', got '' @ got)"

text \<open>\<open>common.py\<close>, lines 24-25.\<close>

definition display_syntax :: "string \<Rightarrow> string \<Rightarrow> string" where
  "display_syntax cmd valid =
     ''[red]Wrong usage of command '' @ cmd @ [CHR 0x0A]
     @ ''[bold]Correct Usage (<>: Required, []: Optional):[/bold][/red] [green]''
     @ valid @ ''[/green]''"

text \<open>\<open>type(x).__name__\<close> and \<open>str(type(x))\<close> of a decoded value.\<close>

fun type_name :: "pyval \<Rightarrow> string" where
  "type_name (PStr _) = ''str''"
| "type_name (PInt _) = ''int''"
| "type_name (PFloat _) = ''float''"
| "type_name (PBool _) = ''bool''"
| "type_name PNone = ''NoneType''"
| "type_name (PList _) = ''list''"
| "type_name (PDict _) = ''dict''"

fun pytype_name :: "pytype \<Rightarrow> string" where
  "pytype_name T_str = ''str''"
| "pytype_name T_int = ''int''"
| "pytype_name T_float = ''float''"
| "pytype_name T_bool = ''bool''"

definition str_class :: "string \<Rightarrow> string" where
  "str_class n = ''<class '' @ [CHR 0x27] @ n @ [CHR 0x27] @ ''>''"

text \<open>
  Python's \<open>isinstance\<close> on these classes. \<open>bool\<close> is a subclass of \<open>int\<close>, so a
  boolean is an instance of \<open>int\<close>; no other two of the classes are related.
\<close>

fun isinstance :: "pyval \<Rightarrow> pytype \<Rightarrow> bool" where
  "isinstance (PStr _) T_str = True"
| "isinstance (PInt _) T_int = True"
| "isinstance (PBool _) T_int = True"
| "isinstance (PFloat _) T_float = True"
| "isinstance (PBool _) T_bool = True"
| "isinstance _ _ = False"

text \<open>
  \<open>for item in arr\<close>: a list yields its elements, a string its characters (each a
  string of length one), a dict its keys; the other values are not iterable and the
  loop raises \<open>TypeError\<close>.
\<close>

fun py_iter :: "pyval \<Rightarrow> pyval list option" where
  "py_iter (PList xs) = Some xs"
| "py_iter (PStr s) = Some (map (\<lambda>c. PStr [c]) s)"
| "py_iter (PDict kvs) = Some (map (\<lambda>kv. PStr (fst kv)) kvs)"
| "py_iter _ = None"

section \<open>\<open>Session.map_insert_to_json\<close>\<close>

text \<open>
  \<open>session.py\<close>, lines 59-62. The loop over the items is \<open>verify_items\<close>; when no item
  raises, the function falls off its end and returns \<open>None\<close>, here \<open>Inr ()\<close>.
\<close>

fun verify_items :: "pytype \<Rightarrow> pyval list \<Rightarrow> exn + unit" where
  "verify_items t [] = Inr ()"
| "verify_items t (item # arr) =
     (if \<not> isinstance item t
      then Inl (DataTypeConflictException (str_class (pytype_name t)) (str_class (type_name item)))
      else verify_items t arr)"

definition verify_array :: "pytype \<Rightarrow> pyval \<Rightarrow> exn + unit" where
  "verify_array t arr =
     (case py_iter arr of None \<Rightarrow> Inl TypeError | Some items \<Rightarrow> verify_items t items)"

text \<open>
  \<open>assert verify_array(t, data)\<close> (lines 72, 74, 76, 78): an exception of the call
  propagates; otherwise the asserted value is the call's result \<open>None\<close>, which is
  falsy, and the statement raises \<open>AssertionError\<close> with no message.
\<close>

definition assert_verify_array :: "pytype \<Rightarrow> pyval \<Rightarrow> exn + unit" where
  "assert_verify_array t data =
     (case verify_array t data of Inl e \<Rightarrow> Inl e | Inr u \<Rightarrow> Inl (AssertionError []))"

text \<open>
  Lines 65-84: the checks on the decoded value \<open>data\<close> of a field declared \<open>tdata\<close>,
  in the order of the \<open>if\<close>/\<open>elif\<close> chain. \<open>Inr ()\<close> means that control reaches
  line 85.
\<close>

definition check_data :: "SchemaTypeToPyT \<Rightarrow> pyval \<Rightarrow> exn + unit" where
  "check_data tdata data =
     (if tdata \<in> {A_BOOL, A_FLOAT, A_INTEGER, A_STRING} then
        (if tdata = A_STRING then assert_verify_array T_str data
         else if tdata = A_INTEGER then assert_verify_array T_int data
         else if tdata = A_FLOAT then assert_verify_array T_float data
         else if tdata = A_BOOL then assert_verify_array T_bool data
         else Inr ())
      else if tdata = BOOL \<and> \<not> isinstance data T_bool
        then Inl (DataTypeConflictException ''bool'' (str_class (type_name data)))
      else if tdata = INTEGER \<and> \<not> isinstance data T_int
        then Inl (DataTypeConflictException ''int'' (str_class (type_name data)))
      else if tdata = FLOAT \<and> \<not> isinstance data T_float
        then Inl (DataTypeConflictException ''float'' (str_class (type_name data)))
      else Inr ())"

subsection \<open>Text functions of the library\<close>

text \<open>
  Strings hold UTF-8 bytes. \<open>str.strip()\<close> removes from both ends the characters for
  which \<open>str.isspace\<close> holds: the ASCII ones, and U+0085, U+00A0, U+1680, U+2000 to
  U+200A, U+2028, U+2029, U+202F, U+205F and U+3000, which are two or three bytes.
\<close>

definition space1 :: "char \<Rightarrow> bool" where
  "space1 a = (a \<in> set [CHR 0x09, CHR 0x0A, CHR 0x0B, CHR 0x0C, CHR 0x0D,
                         CHR 0x1C, CHR 0x1D, CHR 0x1E, CHR 0x1F, CHR 0x20])"

definition space2 :: "char \<Rightarrow> char \<Rightarrow> bool" where
  "space2 a b = (a = CHR 0xC2 \<and> (b = CHR 0x85 \<or> b = CHR 0xA0))"

definition space3 :: "char \<Rightarrow> char \<Rightarrow> char \<Rightarrow> bool" where
  "space3 a b c =
     ((a = CHR 0xE1 \<and> b = CHR 0x9A \<and> c = CHR 0x80)
      \<or> (a = CHR 0xE2 \<and> b = CHR 0x80
          \<and> c \<in> set [CHR 0x80, CHR 0x81, CHR 0x82, CHR 0x83, CHR 0x84, CHR 0x85, CHR 0x86,
                      CHR 0x87, CHR 0x88, CHR 0x89, CHR 0x8A, CHR 0xA8, CHR 0xA9, CHR 0xAF])
      \<or> (a = CHR 0xE2 \<and> b = CHR 0x81 \<and> c = CHR 0x9F)
      \<or> (a = CHR 0xE3 \<and> b = CHR 0x80 \<and> c = CHR 0x80))"

fun strip_left ::
  "(char \<Rightarrow> bool) \<Rightarrow> (char \<Rightarrow> char \<Rightarrow> bool) \<Rightarrow> (char \<Rightarrow> char \<Rightarrow> char \<Rightarrow> bool) \<Rightarrow> string \<Rightarrow> string"
where
  "strip_left p1 p2 p3 (a # b # c # x) =
     (if p1 a then strip_left p1 p2 p3 (b # c # x)
      else if p2 a b then strip_left p1 p2 p3 (c # x)
      else if p3 a b c then strip_left p1 p2 p3 x
      else a # b # c # x)"
| "strip_left p1 p2 p3 [a, b] =
     (if p1 a then strip_left p1 p2 p3 [b] else if p2 a b then [] else [a, b])"
| "strip_left p1 p2 p3 [a] = (if p1 a then [] else [a])"
| "strip_left p1 p2 p3 [] = []"

text \<open>The right end is stripped on the reversed text, where the bytes come last first.\<close>

definition py_strip :: "string \<Rightarrow> string" where
  "py_strip x =
     rev (strip_left space1 (\<lambda>a b. space2 b a) (\<lambda>a b c. space3 c b a)
            (rev (strip_left space1 space2 space3 x)))"

subsection \<open>The console, the library functions and the loop\<close>

text \<open>
  The terminal of \<open>Session.console\<close>: the lines the user is still to type, and what
  has been written so far (oldest first, as passed to \<open>print\<close>, markup included).
\<close>

record console =
  pending :: "string list"
  printed :: "string list"

text \<open>What a successful \<open>print\<close> does to the terminal.\<close>

definition console_print :: "string \<Rightarrow> console \<Rightarrow> console" where
  "console_print text con = con\<lparr>printed := printed con @ [text]\<rparr>"

text \<open>
  \<open>console.input(prompt)\<close>: writes the prompt, then reads a line; at the end of the
  input it raises \<open>EOFError\<close>. The variable parts of the prompt of line 54 are a
  declared field name and \<open>str\<close> of its type.
\<close>

definition console_input :: "string \<Rightarrow> console \<Rightarrow> (exn + string) \<times> console" where
  "console_input prompt con =
     (case pending con of
        [] \<Rightarrow> (Inl EOFError, console_print prompt con)
      | line # rest \<Rightarrow> (Inr line, (console_print prompt con)\<lparr>pending := rest\<rparr>))"

text \<open>A record's field values, and a schema's configuration, both insertion ordered.\<close>

type_synonym fields = "(string \<times> pyval) list"
type_synonym config = "(string \<times> SchemaTypeToPyT) list"

text \<open>\<open>d[key] = value\<close> on an insertion-ordered dict: an existing key keeps its place.\<close>

fun dict_set :: "('k \<times> 'v) list \<Rightarrow> 'k \<Rightarrow> 'v \<Rightarrow> ('k \<times> 'v) list" where
  "dict_set [] k v = [(k, v)]"
| "dict_set ((k', v') # d) k v = (if k' = k then (k, v) # d else (k', v') # dict_set d k v)"

text \<open>
  One schema: its configuration, its cache (record identifier to record) and the
  record files of its directory (file name to the text in the file). A database is the
  dict \<open>Instance.schemas\<close>.
\<close>

record Schema =
  configs :: config
  cache :: "string \<rightharpoonup> fields"
  files :: "(string \<times> string) list"

type_synonym Instance = "(string \<times> Schema) list"

text \<open>
  What the code calls and the sources do not hold, taken as parameters:
  \<open>json.loads\<close> (\<open>None\<close> when it raises \<open>JSONDecodeError\<close>) and \<open>json.dumps\<close>;
  \<open>str\<close> of an enumeration member; of the console library, \<open>Style.normalize\<close> and
  whether the parameters of a handler tag fail to evaluate; \<open>Instance.add_schema\<close> and
  \<open>Instance.drop_schema\<close>, each giving the exception it raises, if any, and the
  database it leaves; the table that \<open>tabulate\<close> draws of \<open>Schema.display_dict()\<close> and
  of a record; and the reading of the payload handed to \<open>Schema.write\<close> (\<open>None\<close> when it
  is not well formed).
\<close>

record env =
  json_loads :: "string \<Rightarrow> pyval option"
  json_dumps :: "pyval \<Rightarrow> string"
  enum_str :: "SchemaTypeToPyT \<Rightarrow> string"
  style_normalize :: "string \<Rightarrow> string"
  meta_params_error :: "string \<Rightarrow> bool"
  add_schema :: "Instance \<Rightarrow> string \<Rightarrow> string \<Rightarrow> exn option \<times> Instance"
  drop_schema :: "Instance \<Rightarrow> string \<Rightarrow> exn option \<times> Instance"
  tabulate_schema :: "Schema \<Rightarrow> string"
  tabulate_record :: "fields \<Rightarrow> string"
  parse_payload :: "string \<Rightarrow> fields option"

text \<open>Lines 55-85 without the assignment: the value bound to the key, or the exception.\<close>

definition field_value :: "env \<Rightarrow> SchemaTypeToPyT \<Rightarrow> string \<Rightarrow> exn + pyval" where
  "field_value E tdata ind =
     (if tdata = STRING then Inr (PStr ind)
      else (case json_loads E ind of
              None \<Rightarrow> Inl JSONDecodeError
            | Some data \<Rightarrow>
                (case check_data tdata data of Inl e \<Rightarrow> Inl e | Inr u \<Rightarrow> Inr data)))"

definition input_prompt :: "env \<Rightarrow> string \<Rightarrow> SchemaTypeToPyT \<Rightarrow> string" where
  "input_prompt E key tdata =
     ''[cyan][bold]'' @ key @ '' (type: '' @ enum_str E tdata @ ''): [/bold][/cyan]''"

text \<open>Lines 53-85: the loop over \<open>items.items()\<close>, with \<open>entries\<close> as accumulator.\<close>

fun insert_loop :: "env \<Rightarrow> config \<Rightarrow> fields \<Rightarrow> console \<Rightarrow> (exn + fields) \<times> console" where
  "insert_loop E [] entries con = (Inr entries, con)"
| "insert_loop E ((key, tdata) # items) entries con =
     (case console_input (input_prompt E key tdata) con of
        (Inl e, con') \<Rightarrow> (Inl e, con')
      | (Inr ind, con') \<Rightarrow>
          (case field_value E tdata ind of
             Inl e \<Rightarrow> (Inl e, con')
           | Inr v \<Rightarrow> insert_loop E items (dict_set entries key v) con'))"

text \<open>Lines 51-87.\<close>

definition map_insert_to_json :: "env \<Rightarrow> config \<Rightarrow> console \<Rightarrow> (exn + string) \<times> console" where
  "map_insert_to_json E items con =
     (case insert_loop E items [] con of
        (Inl e, con') \<Rightarrow> (Inl e, con')
      | (Inr entries, con') \<Rightarrow> (Inr (json_dumps E (PDict entries)), con'))"

section \<open>Console markup\<close>

text \<open>
  \<open>Console.print\<close> renders its text as markup and raises \<open>MarkupError\<close> on a closing
  tag that closes nothing. This is the library's \<open>render\<close>, reduced to whether it
  raises. A tag is a match of the pattern \<open>(\\*)\[([a-z#/@][^[]*?)]\<close>, found from left to
  right: \<open>Outside k\<close> is the scan outside a tag after \<open>k\<close> backslashes, \<open>Opened k\<close> is
  just after a bracket that \<open>k\<close> backslashes precede, and \<open>Inside k acc j\<close> is inside a
  candidate tag whose text so far is \<open>acc\<close>, last character first, ending in \<open>j\<close>
  backslashes. An odd number of backslashes escapes the tag.
\<close>

datatype scan_state = Outside nat | Opened nat | Inside nat string nat

type_synonym tag = "string \<times> string option"

definition tag_start :: "char \<Rightarrow> bool" where
  "tag_start c = (c \<in> set ''abcdefghijklmnopqrstuvwxyz#/@'')"

definition starts_with :: "char \<Rightarrow> string \<Rightarrow> bool" where
  "starts_with a x = (case x of [] \<Rightarrow> False | c # y \<Rightarrow> c = a)"

text \<open>\<open>tag_text.partition("=")\<close>: the name, and the parameters if there is an equals sign.\<close>

definition split_tag :: "string \<Rightarrow> tag" where
  "split_tag tag_text =
     (takeWhile (\<lambda>c. c \<noteq> CHR ''='') tag_text,
      if CHR ''='' \<in> set tag_text then Some (tl (dropWhile (\<lambda>c. c \<noteq> CHR ''='') tag_text))
      else None)"

text \<open>\<open>pop_style\<close>: removes the open tag nearest the top of the stack that has the name.\<close>

fun pop_style :: "string \<Rightarrow> tag list \<Rightarrow> (tag \<times> tag list) option" where
  "pop_style n [] = None"
| "pop_style n (t # st) =
     (if fst t = n then Some (t, st)
      else (case pop_style n st of None \<Rightarrow> None | Some (t', st') \<Rightarrow> Some (t', t # st')))"

text \<open>Closing a handler tag evaluates its parameters, if it has any.\<close>

definition handler_error :: "env \<Rightarrow> tag \<Rightarrow> bool" where
  "handler_error E t =
     (starts_with CHR ''@'' (fst t)
      \<and> (case snd t of None \<Rightarrow> False | Some p \<Rightarrow> p \<noteq> [] \<and> meta_params_error E p))"

text \<open>One tag against the stack of open tags (top first); \<open>None\<close> is \<open>MarkupError\<close>.\<close>

definition apply_tag :: "env \<Rightarrow> tag list \<Rightarrow> string \<Rightarrow> tag list option" where
  "apply_tag E st tag_text =
     (let name = fst (split_tag tag_text); parameters = snd (split_tag tag_text) in
      if starts_with CHR ''/'' name then
        (let style_name = py_strip (tl name) in
         if style_name \<noteq> [] then
           (case pop_style (style_normalize E style_name) st of
              None \<Rightarrow> None
            | Some (t, st') \<Rightarrow> if handler_error E t then None else Some st')
         else
           (case st of
              [] \<Rightarrow> None
            | t # st' \<Rightarrow> if handler_error E t then None else Some st'))
      else Some ((style_normalize E name, parameters) # st))"

fun scan :: "env \<Rightarrow> tag list \<Rightarrow> scan_state \<Rightarrow> string \<Rightarrow> bool" where
  "scan E st q [] = False"
| "scan E st (Outside k) (c # cs) =
     (if c = CHR 0x5C then scan E st (Outside (Suc k)) cs
      else if c = CHR ''['' then scan E st (Opened k) cs
      else scan E st (Outside 0) cs)"
| "scan E st (Opened k) (c # cs) =
     (if tag_start c then scan E st (Inside k [c] 0) cs
      else if c = CHR ''['' then scan E st (Opened 0) cs
      else if c = CHR 0x5C then scan E st (Outside 1) cs
      else scan E st (Outside 0) cs)"
| "scan E st (Inside k acc j) (c # cs) =
     (if c = CHR '']'' then
        (if odd k then scan E st (Outside 0) cs
         else (case apply_tag E st (rev acc) of
                 None \<Rightarrow> True
               | Some st' \<Rightarrow> scan E st' (Outside 0) cs))
      else if c = CHR ''['' then scan E st (Opened j) cs
      else if c = CHR 0x5C then scan E st (Inside k (c # acc) (Suc j)) cs
      else scan E st (Inside k (c # acc) 0) cs)"

definition markup_error :: "env \<Rightarrow> string \<Rightarrow> bool" where
  "markup_error E text = scan E [] (Outside 0) text"

section \<open>The storage engine that \<open>run_command\<close> calls\<close>

text \<open>
  Modelled from the spec: the type system's \<open>validate\<close> (section 4.1), which
  \<open>Schema.write\<close> runs and which is in \<open>src/schema.py\<close>, not among the sources. A
  scalar type requires the value's runtime type to be exactly the declared one; an array
  type requires a sequence and every element of the base type, and reports the first
  element that is not, as (expected base type, actual type of the element).
\<close>

fun base_type :: "SchemaTypeToPyT \<Rightarrow> pytype" where
  "base_type STRING = T_str"
| "base_type INTEGER = T_int"
| "base_type FLOAT = T_float"
| "base_type BOOL = T_bool"
| "base_type A_STRING = T_str"
| "base_type A_INTEGER = T_int"
| "base_type A_FLOAT = T_float"
| "base_type A_BOOL = T_bool"

definition is_array :: "SchemaTypeToPyT \<Rightarrow> bool" where
  "is_array t = (t \<in> {A_BOOL, A_FLOAT, A_INTEGER, A_STRING})"

definition has_type :: "pyval \<Rightarrow> pytype \<Rightarrow> bool" where
  "has_type v t = (type_name v = pytype_name t)"

definition validate :: "SchemaTypeToPyT \<Rightarrow> pyval \<Rightarrow> exn + pyval" where
  "validate t v =
     (if is_array t then
        (case v of
           PList xs \<Rightarrow>
             (case find (\<lambda>x. \<not> has_type x (base_type t)) xs of
                None \<Rightarrow> Inr v
              | Some x \<Rightarrow> Inl (DataTypeConflictException (pytype_name (base_type t)) (type_name x)))
         | _ \<Rightarrow> Inl (DataTypeConflictException ''list'' (type_name v)))
      else if has_type v (base_type t) then Inr v
      else Inl (DataTypeConflictException (pytype_name (base_type t)) (type_name v)))"

text \<open>
  Modelled from the spec: an identifier is safe for storage addressing (section 6) when
  it is not \<open>..\<close> and holds no path separator; the core fails with \<open>InvalidIdentifier\<close>
  on any other.
\<close>

definition safe_identifier :: "string \<Rightarrow> bool" where
  "safe_identifier ident =
     (ident \<noteq> ''..'' \<and> CHR ''/'' \<notin> set ident \<and> CHR 0x5C \<notin> set ident)"

text \<open>
  Modelled from the spec: the storage backend (section 4.4), which is in
  \<open>src/schema.py\<close> and \<open>src/main.py\<close>, not among the sources. A record is one file
  that holds the field-value mapping serialized as structured text: \<open>persist\<close> creates
  or overwrites the file with the serialized mapping, \<open>fetch\<close> fails with
  \<open>RecordNotFound\<close> (the \<open>FileNotFoundError\<close> that \<open>session.py\<close> catches) when there
  is no file and decodes its text otherwise; a text that is not a serialized mapping is
  \<open>MalformedInput\<close> (the \<open>JSONDecodeError\<close> that \<open>session.py\<close> catches).
\<close>

definition decode_record :: "env \<Rightarrow> string \<Rightarrow> exn + fields" where
  "decode_record E txt =
     (case json_loads E txt of
        Some (PDict r) \<Rightarrow> Inr r
      | _ \<Rightarrow> Inl JSONDecodeError)"

definition persist :: "env \<Rightarrow> Schema \<Rightarrow> string \<Rightarrow> fields \<Rightarrow> Schema" where
  "persist E sch ident r = sch\<lparr>files := dict_set (files sch) ident (json_dumps E (PDict r))\<rparr>"

definition fetch :: "env \<Rightarrow> Schema \<Rightarrow> string \<Rightarrow> exn + fields" where
  "fetch E sch ident =
     (case map_of (files sch) ident of
        None \<Rightarrow> Inl FileNotFoundError
      | Some txt \<Rightarrow> decode_record E txt)"

text \<open>
  Modelled from the spec: the cache (section 4.3), not among the sources.
  \<open>Cache_load\<close> is \<open>load()\<close> with no identifier, the only form \<open>session.py\<close> calls: it
  reads every record file of the schema into memory, and stops at a file that does not
  decode. \<open>Cache_get\<close> returns the entry in memory if there is one; otherwise it
  fetches the file once and fills the entry on success. \<open>Cache_put\<close> overwrites the
  entry.
\<close>

fun load_files ::
  "env \<Rightarrow> (string \<times> string) list \<Rightarrow> (string \<rightharpoonup> fields) \<Rightarrow> exn option \<times> (string \<rightharpoonup> fields)"
where
  "load_files E [] c = (None, c)"
| "load_files E ((ident, txt) # fs) c =
     (case decode_record E txt of
        Inl e \<Rightarrow> (Some e, c)
      | Inr r \<Rightarrow> load_files E fs (c(ident \<mapsto> r)))"

definition Cache_load :: "env \<Rightarrow> Schema \<Rightarrow> exn option \<times> Schema" where
  "Cache_load E sch =
     (case load_files E (files sch) (cache sch) of (r, c) \<Rightarrow> (r, sch\<lparr>cache := c\<rparr>))"

definition Cache_get :: "env \<Rightarrow> Schema \<Rightarrow> string \<Rightarrow> (exn + fields) \<times> Schema" where
  "Cache_get E sch ident =
     (case cache sch ident of
        Some r \<Rightarrow> (Inr r, sch)
      | None \<Rightarrow>
          (case fetch E sch ident of
             Inr r \<Rightarrow> (Inr r, sch\<lparr>cache := (cache sch)(ident \<mapsto> r)\<rparr>)
           | Inl e \<Rightarrow> (Inl e, sch)))"

definition Cache_put :: "Schema \<Rightarrow> string \<Rightarrow> fields \<Rightarrow> Schema" where
  "Cache_put sch ident r = sch\<lparr>cache := (cache sch)(ident \<mapsto> r)\<rparr>"

text \<open>
  Modelled from the spec: \<open>Schema.read\<close> and \<open>Schema.write\<close> (section 4.2), which are
  in \<open>src/schema.py\<close>, not among the sources. Both fail with \<open>InvalidIdentifier\<close> on an
  unsafe identifier. \<open>read\<close> delegates to the cache. \<open>write\<close> fails with
  \<open>MalformedInput\<close> when the payload is not well formed; for each key of the payload it
  looks the declared type up, passes a key that is not declared through, validates the
  value of one that is, and fails with the first conflict; it then persists the record
  and updates the cache.
\<close>

definition Schema_read :: "env \<Rightarrow> Schema \<Rightarrow> string \<Rightarrow> (exn + fields) \<times> Schema" where
  "Schema_read E sch ident =
     (if \<not> safe_identifier ident then (Inl InvalidIdentifier, sch) else Cache_get E sch ident)"

fun validate_fields :: "config \<Rightarrow> fields \<Rightarrow> exn + fields" where
  "validate_fields cfg [] = Inr []"
| "validate_fields cfg ((k, v) # raw) =
     (case map_of cfg k of
        None \<Rightarrow> (case validate_fields cfg raw of Inl e \<Rightarrow> Inl e | Inr r \<Rightarrow> Inr ((k, v) # r))
      | Some t \<Rightarrow>
          (case validate t v of
             Inl e \<Rightarrow> Inl e
           | Inr v' \<Rightarrow>
               (case validate_fields cfg raw of Inl e \<Rightarrow> Inl e | Inr r \<Rightarrow> Inr ((k, v') # r))))"

definition Schema_write :: "env \<Rightarrow> Schema \<Rightarrow> string \<Rightarrow> string \<Rightarrow> exn option \<times> Schema" where
  "Schema_write E sch ident payload =
     (if \<not> safe_identifier ident then (Some InvalidIdentifier, sch)
      else
        (case parse_payload E payload of
           None \<Rightarrow> (Some JSONDecodeError, sch)
         | Some raw \<Rightarrow>
             (case validate_fields (configs sch) raw of
                Inl e \<Rightarrow> (Some e, sch)
              | Inr r \<Rightarrow> (None, Cache_put (persist E sch ident r) ident r))))"

section \<open>\<open>Session.run_command\<close>\<close>

text \<open>The session: the database of \<open>self.app\<close> and the terminal.\<close>

record session =
  app :: Instance
  terminal :: console

text \<open>The builtin \<open>print\<close>, which writes its text as it is.\<close>

definition out :: "string \<Rightarrow> session \<Rightarrow> session" where
  "out text s = s\<lparr>terminal := console_print text (terminal s)\<rparr>"

text \<open>\<open>self.console.print(text)\<close>: raises on markup it cannot render, and writes otherwise.\<close>

definition print_markup :: "env \<Rightarrow> string \<Rightarrow> session \<Rightarrow> exn option \<times> session" where
  "print_markup E text s = (if markup_error E text then (Some MarkupError, s) else (None, out text s))"

text \<open>\<open>" ".join(xs)\<close>.\<close>

fun join_space :: "string list \<Rightarrow> string" where
  "join_space [] = []"
| "join_space [x] = x"
| "join_space (x # y # ys) = x @ '' '' @ join_space (y # ys)"

text \<open>The hourglass that line 101 prints, U+231B, in UTF-8.\<close>

definition hourglass :: string where
  "hourglass = [CHR 0xE2, CHR 0x8C, CHR 0x9B]"

text \<open>Lines 96-97: the loop over all schemas, which an exception of a load leaves.\<close>

fun load_all :: "env \<Rightarrow> Instance \<Rightarrow> exn option \<times> Instance" where
  "load_all E [] = (None, [])"
| "load_all E ((n, sch) # rest) =
     (case Cache_load E sch of
        (Some e, sch') \<Rightarrow> (Some e, (n, sch') # rest)
      | (None, sch') \<Rightarrow> (case load_all E rest of (r, rest') \<Rightarrow> (r, (n, sch') # rest')))"

text \<open>
  Lines 101-102, the body of the \<open>try\<close>: the print, the lookup of the stripped name,
  which raises \<open>KeyError\<close> on a name that is no key, and the load.
\<close>

definition load_try :: "env \<Rightarrow> string \<Rightarrow> session \<Rightarrow> exn option \<times> session" where
  "load_try E sname s =
     (case print_markup E (hourglass @ ''[blue]Loading '' @ sname @ '' ...'') s of
        (Some e, s1) \<Rightarrow> (Some e, s1)
      | (None, s1) \<Rightarrow>
          (case map_of (app s1) (py_strip sname) of
             None \<Rightarrow> (Some KeyError, s1)
           | Some sch \<Rightarrow>
               (case Cache_load E sch of
                  (r, sch') \<Rightarrow> (r, s1\<lparr>app := dict_set (app s1) (py_strip sname) sch'\<rparr>))))"

text \<open>Lines 100-104: the \<open>try\<close> with its handler, which catches \<open>KeyError\<close> only.\<close>

definition load_one :: "env \<Rightarrow> string \<Rightarrow> session \<Rightarrow> exn option \<times> session" where
  "load_one E sname s =
     (case load_try E sname s of
        (r, s1) \<Rightarrow>
          (if r = Some KeyError
           then print_markup E (''[red]No schema named [bold]'' @ sname @ ''[/bold] found.'') s1
           else (r, s1)))"

text \<open>Lines 99-104: the loop over the names, which an exception leaves.\<close>

fun load_each :: "env \<Rightarrow> string list \<Rightarrow> session \<Rightarrow> exn option \<times> session" where
  "load_each E [] s = (None, s)"
| "load_each E (sname # rest) s =
     (case load_one E sname s of
        (Some e, s1) \<Rightarrow> (Some e, s1)
      | (None, s1) \<Rightarrow> load_each E rest s1)"

text \<open>Lines 126-129: the two handlers of the \<open>try\<close> of \<open>insert\<close>.\<close>

definition insert_handlers :: "env \<Rightarrow> exn \<Rightarrow> session \<Rightarrow> exn option \<times> session" where
  "insert_handlers E e s =
     (case e of
        DataTypeConflict msg \<Rightarrow> print_markup E (''[red]'' @ msg) s
      | JSONDecodeError \<Rightarrow> print_markup E ''[red]Invalid Input.'' s
      | _ \<Rightarrow> (Some e, s))"

text \<open>
  Lines 89-143. The result is the exception that leaves the call, if any, and the
  session as the call leaves it. \<open>restargs[0]\<close> and \<open>restargs[1]\<close> raise \<open>IndexError\<close>
  on a list that is too short; a schema object is truthy, so the \<open>assert\<close> on
  \<open>schemas.get\<close> fails exactly when the name is not a key. The tables of lines 111 and
  136 go through the builtin \<open>print\<close>, every other text through the console.
\<close>

definition run_command :: "env \<Rightarrow> session \<Rightarrow> string \<Rightarrow> string list \<Rightarrow> exn option \<times> session" where
  "run_command E s action restargs =
     (if action = ''!create_schema'' then
        (case restargs of
           [] \<Rightarrow> (Some IndexError, s)
         | name # rest \<Rightarrow>
             (case add_schema E (app s) name (join_space rest) of
                (r, a) \<Rightarrow> (r, s\<lparr>app := a\<rparr>)))
      else if action = ''!drop_schema'' then
        (case restargs of
           [] \<Rightarrow> (Some IndexError, s)
         | name # rest \<Rightarrow>
             (case drop_schema E (app s) name of (r, a) \<Rightarrow> (r, s\<lparr>app := a\<rparr>)))
      else if action = ''!load_cache'' then
        (if length restargs = 0
         then (case load_all E (app s) of (r, a) \<Rightarrow> (r, s\<lparr>app := a\<rparr>))
         else load_each E restargs s)
      else if action = ''!display_schema'' then
        (if length restargs \<noteq> 1
         then print_markup E (display_syntax ''!display_schema'' ''!display_schema <schema_name>'') s
         else
           (case map_of (app s) (hd restargs) of
              None \<Rightarrow>
                (Some (AssertionError (''No schema named [bold]'' @ hd restargs @ ''[/bold] found'')), s)
            | Some sch \<Rightarrow> (None, out (tabulate_schema E sch) s)))
      else if action = ''insert'' then
        (case restargs of
           [] \<Rightarrow> (Some IndexError, s)
         | name # rest \<Rightarrow>
             (case map_of (app s) name of
                None \<Rightarrow> (Some (AssertionError (''No schema named [bold]'' @ name @ ''[/bold] found'')), s)
              | Some sch \<Rightarrow>
                  (if length restargs = 2 then
                     (case map_insert_to_json E (configs sch) (terminal s) of
                        (Inl e, con) \<Rightarrow> insert_handlers E e (s\<lparr>terminal := con\<rparr>)
                      | (Inr items, con) \<Rightarrow>
                          (case Schema_write E sch (hd rest) items of
                             (None, sch') \<Rightarrow>
                               (None, s\<lparr>app := dict_set (app s) name sch', terminal := con\<rparr>)
                           | (Some e, sch') \<Rightarrow>
                               insert_handlers E e
                                 (s\<lparr>app := dict_set (app s) name sch', terminal := con\<rparr>)))
                   else
                     (case rest of
                        [] \<Rightarrow> (Some IndexError, s)
                      | ident # others \<Rightarrow>
                          (case Schema_write E sch ident (join_space others) of
                             (r, sch') \<Rightarrow> (r, s\<lparr>app := dict_set (app s) name sch'\<rparr>))))))
      else if action = ''select'' then
        (case restargs of
           [] \<Rightarrow> (Some IndexError, s)
         | name # rest \<Rightarrow>
             (case map_of (app s) name of
                None \<Rightarrow> (Some (AssertionError (''No schema named '' @ name @ '' found'')), s)
              | Some sch \<Rightarrow>
                  (case rest of
                     [] \<Rightarrow> (Some IndexError, s)
                   | ident # others \<Rightarrow>
                       (case Schema_read E sch ident of
                          (Inr data, sch') \<Rightarrow>
                            (None, out (tabulate_record E data) (s\<lparr>app := dict_set (app s) name sch'\<rparr>))
                        | (Inl e, sch') \<Rightarrow>
                            (if e = FileNotFoundError
                             then print_markup E (''[red]No data with ID '' @ ident @ '' found.'')
                                    (s\<lparr>app := dict_set (app s) name sch'\<rparr>)
                             else (Some e, s\<lparr>app := dict_set (app s) name sch'\<rparr>))))))
      else if action \<in> set [''!q'', ''!quit'', '':q'', '':quit''] then (Some KeyboardInterrupt, s)
      else print_markup E
             ''[red]Invalid Command, use [bold]!help[/bold] to get a list of available commands.'' s)"


section \<open>The words of the claims\<close>





section \<open>A database and a library to run the code on\<close>

text \<open>
  The values of \<open>json.loads\<close> and \<open>json.dumps\<close> at the texts and values that the
  runs below use; the two tables say nothing about other arguments.
\<close>

definition example_loads :: "string \<Rightarrow> pyval option" where
  \<open>example_loads ind =
     (if ind = ''30'' then Some (PInt 30)
      else if ind = ''true'' then Some (PBool True)
      else if ind = ''"thirty"'' then Some (PStr ''thirty'')
      else if ind = ''[1, 2]'' then Some (PList [PInt 1, PInt 2])
      else if ind = ''{"name": "Ann", "age": 30}''
        then Some (PDict [(''name'', PStr ''Ann''), (''age'', PInt 30)])
      else if ind = ''{"name": "Ann", "nick": "A"}''
        then Some (PDict [(''name'', PStr ''Ann''), (''nick'', PStr ''A'')])
      else if ind = ''{"tags": [1, 2]}''
        then Some (PDict [(''tags'', PList [PInt 1, PInt 2])])
      else None)\<close>

definition example_dumps :: "pyval \<Rightarrow> string" where
  \<open>example_dumps v =
     (if v = PDict [(''name'', PStr ''Ann''), (''age'', PInt 30)]
      then ''{"name": "Ann", "age": 30}''
      else if v = PDict [(''name'', PStr ''Ann''), (''nick'', PStr ''A'')]
      then ''{"name": "Ann", "nick": "A"}''
      else ''null'')\<close>

definition example_parse :: "string \<Rightarrow> fields option" where
  "example_parse payload =
     (case example_loads payload of Some (PDict kvs) \<Rightarrow> Some kvs | _ \<Rightarrow> None)"

fun example_enum_str :: "SchemaTypeToPyT \<Rightarrow> string" where
  "example_enum_str STRING = ''SchemaTypeToPyT.STRING''"
| "example_enum_str INTEGER = ''SchemaTypeToPyT.INTEGER''"
| "example_enum_str FLOAT = ''SchemaTypeToPyT.FLOAT''"
| "example_enum_str BOOL = ''SchemaTypeToPyT.BOOL''"
| "example_enum_str A_STRING = ''SchemaTypeToPyT.A_STRING''"
| "example_enum_str A_INTEGER = ''SchemaTypeToPyT.A_INTEGER''"
| "example_enum_str A_FLOAT = ''SchemaTypeToPyT.A_FLOAT''"
| "example_enum_str A_BOOL = ''SchemaTypeToPyT.A_BOOL''"

text \<open>
  \<open>Style.normalize\<close> gives a plain lower-case style name such as \<open>red\<close> or \<open>bold\<close> back
  as it is, and no run below has a handler tag.
\<close>

definition example_env :: env where
  "example_env =
     \<lparr>json_loads = example_loads,
      json_dumps = example_dumps,
      enum_str = example_enum_str,
      style_normalize = (\<lambda>n. n),
      meta_params_error = (\<lambda>p. False),
      add_schema = (\<lambda>a name spec. (None, a)),
      drop_schema = (\<lambda>a name. (None, filter (\<lambda>p. fst p \<noteq> name) a)),
      tabulate_schema = (\<lambda>sch. join_space (map fst (configs sch))),
      tabulate_record = (\<lambda>r. join_space (map fst r)),
      parse_payload = example_parse\<rparr>"

text \<open>
  The schema \<open>user name STRING age INTEGER\<close> of the spec's scenarios, with no record,
  and a second schema with one array field and one record file not yet in its cache.
\<close>

definition user_schema :: Schema where
  "user_schema =
     \<lparr>configs = [(''name'', STRING), (''age'', INTEGER)], cache = Map.empty, files = []\<rparr>"

definition tags_schema :: Schema where
  \<open>tags_schema =
     \<lparr>configs = [(''tags'', A_INTEGER)],
      cache = Map.empty,
      files = [(''t1'', ''{"tags": [1, 2]}'')]\<rparr>\<close>

definition example_session :: "string list \<Rightarrow> session" where
  "example_session typed =
     \<lparr>app = [(''user'', user_schema), (''tags'', tags_schema)],
      terminal = \<lparr>pending = typed, printed = []\<rparr>\<rparr>"

section \<open>Array and scalar checks\<close>

lemma assert_verify_array_fails: "assert_verify_array t data \<noteq> Inr u"
  by (simp add: assert_verify_array_def split: sum.splits)

lemma check_data_array_fails:
  "tdata \<in> {A_BOOL, A_FLOAT, A_INTEGER, A_STRING} \<Longrightarrow> check_data tdata data \<noteq> Inr u"
  by (auto simp: check_data_def assert_verify_array_fails)

lemma verify_items_ok_iff: "verify_items t xs = Inr () \<longleftrightarrow> (\<forall>x \<in> set xs. isinstance x t)"
  by (induction xs) (simp_all add: DataTypeConflictException_def)

lemma verify_items_first_mismatch:
  "\<forall>x \<in> set pre. isinstance x t \<Longrightarrow> \<not> isinstance y t \<Longrightarrow>
   verify_items t (pre @ y # post) =
     Inl (DataTypeConflictException (str_class (pytype_name t)) (str_class (type_name y)))"
  by (induction pre) simp_all

lemma check_data_scalar_iff:
  "check_data BOOL data = Inr () \<longleftrightarrow> isinstance data T_bool"
  "check_data INTEGER data = Inr () \<longleftrightarrow> isinstance data T_int"
  "check_data FLOAT data = Inr () \<longleftrightarrow> isinstance data T_float"
  "check_data STRING data = Inr ()"
  by (simp_all add: check_data_def)

lemma isinstance_exact_or_bool_as_int:
  "isinstance v t \<longleftrightarrow> has_type v t \<or> (t = T_int \<and> type_name v = ''bool'')"
  by (cases v; cases t) (simp_all add: has_type_def)

text \<open>
  C1, at a field declared \<open>A_INTEGER\<close> and the input line \<open>[1, 2]\<close>: every element of
  the decoded list is an \<open>int\<close>, and the code raises \<open>AssertionError\<close> instead of
  accepting the list. By \<open>check_data_array_fails\<close> no array value is ever accepted.
\<close>

theorem array_of_matching_elements_rejected:
  "json_loads example_env ''[1, 2]'' = Some (PList [PInt 1, PInt 2])
   \<and> verify_array T_int (PList [PInt 1, PInt 2]) = Inr ()
   \<and> check_data A_INTEGER (PList [PInt 1, PInt 2]) = Inl (AssertionError [])
   \<and> field_value example_env A_INTEGER ''[1, 2]'' = Inl (AssertionError [])"
  by (simp add: field_value_def example_env_def example_loads_def check_data_def
      assert_verify_array_def verify_array_def)

text \<open>
  C2, at a field declared \<open>INTEGER\<close> and the input line \<open>true\<close>: the decoded value is
  a \<open>bool\<close>, whose runtime type is not \<open>int\<close>, and the code accepts it and binds the
  field to \<open>True\<close>.
\<close>

theorem bool_accepted_for_integer:
  "json_loads example_env ''true'' = Some (PBool True)
   \<and> \<not> has_type (PBool True) T_int
   \<and> check_data INTEGER (PBool True) = Inr ()
   \<and> field_value example_env INTEGER ''true'' = Inr (PBool True)"
  by (simp add: field_value_def example_env_def example_loads_def check_data_def has_type_def)

section \<open>Decoding of the input lines\<close>



section \<open>What the console renders\<close>

lemma apply_tag_no_slash: "CHR ''/'' \<notin> set tag_text \<Longrightarrow> apply_tag E st tag_text \<noteq> None"
proof -
  assume a: "CHR ''/'' \<notin> set tag_text"
  have "set (takeWhile (\<lambda>c. c \<noteq> CHR ''='') tag_text) \<subseteq> set tag_text"
    by (auto dest: set_takeWhileD)
  then have "\<not> starts_with CHR ''/'' (fst (split_tag tag_text))"
    using a by (auto simp: starts_with_def split_tag_def split: list.splits)
  then show ?thesis
    by (simp add: apply_tag_def Let_def)
qed

lemma scan_no_slash:
  "CHR ''/'' \<notin> set x \<Longrightarrow> (case q of Inside k acc j \<Rightarrow> CHR ''/'' \<notin> set acc | _ \<Rightarrow> True) \<Longrightarrow>
   \<not> scan E st q x"
proof (induction x arbitrary: st q)
  case Nil
  show ?case by simp
next
  case (Cons c cs)
  have cs: "CHR ''/'' \<notin> set cs" and c: "c \<noteq> CHR ''/''"
    using Cons.prems(1) by auto
  show ?case
  proof (cases q)
    case (Outside k)
    with Cons.IH [OF cs] show ?thesis by simp
  next
    case (Opened k)
    with Cons.IH [OF cs] c show ?thesis by simp
  next
    case (Inside k acc j)
    have acc: "CHR ''/'' \<notin> set (rev acc)"
      using Cons.prems(2) Inside by simp
    from apply_tag_no_slash [OF acc, of E st] obtain st' where st': "apply_tag E st (rev acc) = Some st'"
      by auto
    with Cons.IH [OF cs] c Cons.prems(2) Inside show ?thesis by simp
  qed
qed

lemma markup_error_no_slash: "CHR ''/'' \<notin> set x \<Longrightarrow> \<not> markup_error E x"
  by (simp add: markup_error_def scan_no_slash)

lemma handler_error_plain: "\<not> handler_error E (n, None)"
  by (simp add: handler_error_def)

lemma usage_message_renders:
  "\<not> markup_error E (display_syntax ''!display_schema'' ''!display_schema <schema_name>'')"
  by (simp add: markup_error_def display_syntax_def tag_start_def apply_tag_def split_tag_def
      starts_with_def py_strip_def space1_def space2_def space3_def handler_error_def Let_def)

section \<open>Errors of an insert\<close>




lemma verify_items_message:
  "verify_items t xs = Inl (DataTypeConflict m) \<Longrightarrow> CHR ''/'' \<notin> set m"
proof (induction xs)
  case Nil
  then show ?case by simp
next
  case (Cons item xs)
  show ?case
  proof (cases "isinstance item t")
    case True
    with Cons show ?thesis by simp
  next
    case False
    with Cons.prems show ?thesis
      by (cases t; cases item) (auto simp: DataTypeConflictException_def str_class_def)
  qed
qed

lemma check_data_message:
  "check_data tdata d = Inl (DataTypeConflict m) \<Longrightarrow> CHR ''/'' \<notin> set m"
proof -
  assume a: "check_data tdata d = Inl (DataTypeConflict m)"
  have arr: "CHR ''/'' \<notin> set m" if "assert_verify_array t d = Inl (DataTypeConflict m)" for t
    using that verify_items_message [of t _ m]
    by (auto simp: assert_verify_array_def verify_array_def split: sum.splits option.splits)
  show ?thesis
    using a arr
    by (cases tdata; cases d)
       (auto simp: check_data_def DataTypeConflictException_def str_class_def split: if_splits)
qed

lemma insert_loop_message:
  "insert_loop E items entries con = (Inl (DataTypeConflict m), con') \<Longrightarrow> CHR ''/'' \<notin> set m"
proof (induction items arbitrary: entries con)
  case Nil
  then show ?case by simp
next
  case (Cons kt items)
  obtain key tdata where kt: "kt = (key, tdata)" by (cases kt)
  show ?case
  proof (cases "console_input (input_prompt E key tdata) con")
    case (Pair r con1)
    show ?thesis
    proof (cases r)
      case (Inl e)
      with Cons.prems kt Pair show ?thesis
        by (auto simp: console_input_def split: list.splits)
    next
      case (Inr ind)
      show ?thesis
      proof (cases "field_value E tdata ind")
        case fl: (Inl e)
        with Cons.prems kt Pair Inr have "e = DataTypeConflict m" by simp
        with fl show ?thesis
          using check_data_message [of tdata _ m]
          by (auto simp: field_value_def split: if_splits option.splits sum.splits)
      next
        case fr: (Inr v)
        with Cons.prems kt Pair Inr Cons.IH show ?thesis by simp
      qed
    qed
  qed
qed

lemma map_insert_to_json_message:
  "map_insert_to_json E items con = (Inl (DataTypeConflict m), con') \<Longrightarrow> CHR ''/'' \<notin> set m"
proof -
  assume a: "map_insert_to_json E items con = (Inl (DataTypeConflict m), con')"
  obtain r c where rc: "insert_loop E items [] con = (r, c)" by (cases "insert_loop E items [] con")
  with a have "insert_loop E items [] con = (Inl (DataTypeConflict m), con')"
    by (cases r) (auto simp: map_insert_to_json_def)
  then show ?thesis by (rule insert_loop_message)
qed

text \<open>
  C4: the exception built from \<open>e\<close> and \<open>g\<close> has the message \<open>Expected e, got g\<close>; a
  string decoded for an \<open>INTEGER\<close> field raises it with \<open>int\<close> and the class of
  strings; and when the prompted insert raises it, \<open>run_command\<close> prints that message,
  unchanged, in red, and returns.
\<close>

theorem type_conflict_message:
  "DataTypeConflictException e g = DataTypeConflict (''Expected '' @ e @ '', got '' @ g)
   \<and> check_data INTEGER (PStr txt) = Inl (DataTypeConflictException ''int'' ''<class 'str'>'')
   \<and> (map_of (app s) name = Some sch
        \<and> map_insert_to_json E (configs sch) (terminal s) = (Inl (DataTypeConflictException e g), con)
        \<longrightarrow> run_command E s ''insert'' [name, ident] =
              (None, s\<lparr>terminal := console_print (''[red]Expected '' @ e @ '', got '' @ g) con\<rparr>))"
proof -
  have shown: "run_command E s ''insert'' [name, ident] =
      (None, s\<lparr>terminal := console_print (''[red]Expected '' @ e @ '', got '' @ g) con\<rparr>)"
    if sch: "map_of (app s) name = Some sch"
      and raised: "map_insert_to_json E (configs sch) (terminal s) = (Inl (DataTypeConflictException e g), con)"
  proof -
    have "CHR ''/'' \<notin> set (''Expected '' @ e @ '', got '' @ g)"
      using map_insert_to_json_message [of E "configs sch" "terminal s"] raised
      by (simp add: DataTypeConflictException_def)
    then have "\<not> markup_error E (''[red]'' @ ''Expected '' @ e @ '', got '' @ g)"
      by (intro markup_error_no_slash) simp
    then show ?thesis
      using sch raised
      by (simp add: DataTypeConflictException_def run_command_def insert_handlers_def
          print_markup_def out_def)
  qed
  show ?thesis
    using shown by (simp add: DataTypeConflictException_def check_data_def str_class_def)
qed

theorem type_conflict_message_witness:
  \<open>map_of (app (example_session [''Ann'', ''"thirty"''])) ''user'' = Some user_schema
   \<and> map_insert_to_json example_env (configs user_schema)
         (terminal (example_session [''Ann'', ''"thirty"''])) =
       (Inl (DataTypeConflictException ''int'' ''<class 'str'>''),
        \<lparr>pending = [],
         printed = [''[cyan][bold]name (type: SchemaTypeToPyT.STRING): [/bold][/cyan]'',
                    ''[cyan][bold]age (type: SchemaTypeToPyT.INTEGER): [/bold][/cyan]'']\<rparr>)
   \<and> run_command example_env (example_session [''Ann'', ''"thirty"'']) ''insert'' [''user'', ''u2''] =
       (None,
        \<lparr>app = [(''user'', user_schema), (''tags'', tags_schema)],
         terminal =
           \<lparr>pending = [],
            printed = [''[cyan][bold]name (type: SchemaTypeToPyT.STRING): [/bold][/cyan]'',
                       ''[cyan][bold]age (type: SchemaTypeToPyT.INTEGER): [/bold][/cyan]'',
                       ''[red]Expected int, got <class 'str'>'']\<rparr>\<rparr>)\<close>
proof -
  let ?s = \<open>example_session [''Ann'', ''"thirty"'']\<close>
  let ?con = \<open>\<lparr>pending = [],
         printed = [''[cyan][bold]name (type: SchemaTypeToPyT.STRING): [/bold][/cyan]'',
                    ''[cyan][bold]age (type: SchemaTypeToPyT.INTEGER): [/bold][/cyan]'']\<rparr>\<close>
  have a: "map_of (app ?s) ''user'' = Some user_schema"
    by (simp add: example_session_def)
  have b: \<open>map_insert_to_json example_env (configs user_schema) (terminal ?s) =
       (Inl (DataTypeConflictException ''int'' ''<class 'str'>''), ?con)\<close>
    by (simp add: map_insert_to_json_def example_session_def user_schema_def console_input_def
        field_value_def example_env_def example_loads_def check_data_def console_print_def
        input_prompt_def str_class_def)
  from type_conflict_message [of "''int''" "''<class 'str'>''" "''x''" ?s "''user''" user_schema
      example_env ?con "''u2''"] a b
  show ?thesis
    by (simp add: example_session_def console_print_def)
qed






section \<open>The result of \<open>map_insert_to_json\<close>\<close>




section \<open>Reading, loading and the usage message\<close>




text \<open>
  C7, at \<open>!load_cache [/][/] tags\<close>: no schema has the first name, and the print of
  line 101, inside a \<open>try\<close> that catches \<open>KeyError\<close> only, raises \<open>MarkupError\<close> on it;
  the call ends there with nothing reported and the cache of \<open>tags\<close> not loaded. With
  the name \<open>ghost\<close> in its place the miss is reported and \<open>tags\<close> is loaded.
\<close>

theorem bulk_load_aborted_by_markup:
  "map_of (app (example_session [])) (py_strip ''[/][/]'') = None
   \<and> run_command example_env (example_session []) ''!load_cache'' [''[/][/]'', ''tags'']
       = (Some MarkupError, example_session [])
   \<and> map_option (\<lambda>sch. cache sch ''t1'') (map_of (app (example_session [])) ''tags'') = Some None
   \<and> fst (run_command example_env (example_session []) ''!load_cache'' [''ghost'', ''tags'']) = None
   \<and> printed (terminal (snd (run_command example_env (example_session []) ''!load_cache''
                                 [''ghost'', ''tags''])))
       = [hourglass @ ''[blue]Loading ghost ...'',
          ''[red]No schema named [bold]ghost[/bold] found.'',
          hourglass @ ''[blue]Loading tags ...'']
   \<and> map_option (\<lambda>sch. cache sch ''t1'')
        (map_of (app (snd (run_command example_env (example_session []) ''!load_cache''
                             [''ghost'', ''tags''])))  ''tags'')
       = Some (Some [(''tags'', PList [PInt 1, PInt 2])])"
  by (simp add: run_command_def load_one_def load_try_def print_markup_def markup_error_def
      hourglass_def tag_start_def apply_tag_def split_tag_def starts_with_def py_strip_def
      space1_def space2_def space3_def handler_error_def Let_def example_env_def
      example_session_def out_def console_print_def Cache_load_def decode_record_def
      example_loads_def tags_schema_def user_schema_def)

text \<open>
  C10: \<open>!display_schema\<close> with no argument or with more than one prints the usage
  message and returns; the database, with its schemas, caches and files, and the
  pending input are unchanged.
\<close>

theorem display_schema_usage:
  "length restargs \<noteq> 1 \<Longrightarrow>
     run_command E s ''!display_schema'' restargs =
       (None, s\<lparr>terminal := console_print
                 (display_syntax ''!display_schema'' ''!display_schema <schema_name>'') (terminal s)\<rparr>)
     \<and> app (snd (run_command E s ''!display_schema'' restargs)) = app s
     \<and> pending (terminal (snd (run_command E s ''!display_schema'' restargs))) = pending (terminal s)"
  using usage_message_renders [of E]
  by (simp add: run_command_def print_markup_def out_def console_print_def)

theorem display_schema_usage_witness:
  "length [''user'', ''tags''] \<noteq> 1 \<and>
   run_command example_env (example_session []) ''!display_schema'' [''user'', ''tags''] =
     (None, \<lparr>app = [(''user'', user_schema), (''tags'', tags_schema)],
             terminal = \<lparr>pending = [], printed =
               [''[red]Wrong usage of command !display_schema'' @ [CHR 0x0A] @
                ''[bold]Correct Usage (<>: Required, []: Optional):[/bold][/red] [green]!display_schema <schema_name>[/green]'']\<rparr>\<rparr>)"
  using display_schema_usage [of "[''user'', ''tags'']" example_env "example_session []"]
  by (simp add: example_session_def console_print_def display_syntax_def)

section \<open>Writing a record and reading it back\<close>









end
